theory Spec2Isabelle
  imports Main
begin

section \<open>Python values that flow through the validator\<close>

text \<open>
  The cells of a sheet row are scalars: \<open>None\<close>, the float \<open>nan\<close>, pandas' \<open>NaT\<close>,
  strings, booleans, integers, floats and date-time values. What \<open>response.json()\<close>
  returns is any JSON value: a scalar, a list or a \<open>dict\<close> with string keys (in insertion
  order), nested to any depth. A string is a list of characters with code points below
  256. The validator asks of a float only its \<open>str()\<close> text and whether it is zero, so a
  float other than \<open>nan\<close> is carried by that text. A date-time value is a naive one with
  whole seconds.
\<close>

record datetime =
  dt_year :: nat
  dt_month :: nat
  dt_day :: nat
  dt_hour :: nat
  dt_minute :: nat
  dt_second :: nat

datatype pyval =
    PNone
  | PNaN
  | PNaT
  | PStr string
  | PBool bool
  | PInt int
  | PFloat string
  | PDatetime datetime
  | PList "pyval list"
  | PDict "(string \<times> pyval) list"

datatype exn = ValueError | AttributeError

text \<open>
  The parts of the libraries that differ from one version to the next are parameters of
  the model: what \<open>datetime.fromisoformat\<close> makes of a string that starts with four
  digits and is not of the ten-character form \<open>YYYY-MM-DD\<close> (\<open>None\<close> stands for its
  \<open>ValueError\<close>), and the truth value of \<open>pd.isna\<close> on a list that is empty or holds a
  list, which follows NumPy's construction of an array from nested lists.
\<close>

record library =
  other_iso :: "string \<Rightarrow> datetime option"
  nested_isna :: "pyval list \<Rightarrow> exn + bool"

subsection \<open>Decimal text\<close>

text \<open>\<open>digit_chr n\<close> is the character of the last decimal digit of \<open>n\<close>.\<close>

definition digit_chr :: "nat \<Rightarrow> char" where
  "digit_chr n = char_of (48 + n mod 10)"

definition is_digit :: "char \<Rightarrow> bool" where
  "is_digit c = (48 \<le> (of_char c :: nat) \<and> (of_char c :: nat) \<le> 57)"

definition digit_val :: "char \<Rightarrow> nat" where
  "digit_val c = of_char c - 48"

fun str_nat :: "nat \<Rightarrow> string" where
  "str_nat n = (if n < 10 then [digit_chr n] else str_nat (n div 10) @ [digit_chr n])"

declare str_nat.simps [simp del]

definition str_int :: "int \<Rightarrow> string" where
  "str_int i = (if i < 0 then CHR ''-'' # str_nat (nat (- i)) else str_nat (nat i))"

definition pad2 :: "nat \<Rightarrow> string" where
  "pad2 n = [digit_chr (n div 10), digit_chr n]"

definition pad4 :: "nat \<Rightarrow> string" where
  "pad4 n = [digit_chr (n div 1000), digit_chr (n div 100), digit_chr (n div 10), digit_chr n]"

text \<open>\<open>sep.join(xs)\<close>.\<close>

fun join :: "string \<Rightarrow> string list \<Rightarrow> string" where
  "join sep [] = []"
| "join sep [x] = x"
| "join sep (x # y # ys) = x @ sep @ join sep (y # ys)"

subsection \<open>Dates\<close>

text \<open>
  \<open>strftime('%Y-%m-%d')\<close> as CPython prints it through the C library of Linux: the year
  as a plain decimal number, not padded (a year below 1000 has fewer than four digits),
  the month and the day on two digits.
\<close>

definition strftime_ymd :: "datetime \<Rightarrow> string" where
  "strftime_ymd d = str_nat (dt_year d) @ ''-'' @ pad2 (dt_month d) @ ''-'' @ pad2 (dt_day d)"

text \<open>
  \<open>str()\<close> of a date-time value is its ISO text with a space: the year on four digits,
  the date, a space, the time of day.
\<close>

definition str_datetime :: "datetime \<Rightarrow> string" where
  "str_datetime d = pad4 (dt_year d) @ ''-'' @ pad2 (dt_month d) @ ''-'' @ pad2 (dt_day d)
     @ '' '' @ pad2 (dt_hour d) @ '':'' @ pad2 (dt_minute d) @ '':'' @ pad2 (dt_second d)"

definition is_leap :: "nat \<Rightarrow> bool" where
  "is_leap y = (y mod 4 = 0 \<and> (y mod 100 \<noteq> 0 \<or> y mod 400 = 0))"

definition days_in_month :: "nat \<Rightarrow> nat \<Rightarrow> nat" where
  "days_in_month y m =
     (if m = 2 then (if is_leap y then 29 else 28)
      else if m = 4 \<or> m = 6 \<or> m = 9 \<or> m = 11 then 30 else 31)"

text \<open>
  The shape \<open>YYYY-MM-DD\<close>: ten characters, digits around two hyphens.
\<close>

fun is_canonical :: "string \<Rightarrow> bool" where
  "is_canonical [y1, y2, y3, y4, h1, m1, m2, h2, d1, d2] =
     (is_digit y1 \<and> is_digit y2 \<and> is_digit y3 \<and> is_digit y4 \<and> h1 = CHR ''-''
      \<and> is_digit m1 \<and> is_digit m2 \<and> h2 = CHR ''-'' \<and> is_digit d1 \<and> is_digit d2)"
| "is_canonical _ = False"

text \<open>
  What \<open>datetime.fromisoformat\<close> makes of a string of the shape \<open>YYYY-MM-DD\<close>: the
  fields are read as decimal numbers, and the result exists when they name a day of the
  calendar (years 1 to 9999).
\<close>

fun calendar_date :: "string \<Rightarrow> datetime option" where
  "calendar_date [y1, y2, y3, y4, h1, m1, m2, h2, d1, d2] =
     (let y = 1000 * digit_val y1 + 100 * digit_val y2 + 10 * digit_val y3 + digit_val y4;
          m = 10 * digit_val m1 + digit_val m2;
          d = 10 * digit_val d1 + digit_val d2
      in if 1 \<le> y \<and> 1 \<le> m \<and> m \<le> 12 \<and> 1 \<le> d \<and> d \<le> days_in_month y m
         then Some \<lparr>dt_year = y, dt_month = m, dt_day = d, dt_hour = 0, dt_minute = 0,
                    dt_second = 0\<rparr>
         else None)"
| "calendar_date _ = None"

text \<open>Every ISO form starts with the four digits of the year.\<close>

definition starts_with_year :: "string \<Rightarrow> bool" where
  "starts_with_year s = (4 \<le> length s \<and> list_all is_digit (take 4 s))"

text \<open>
  \<open>datetime.fromisoformat\<close>, \<open>None\<close> standing for the \<open>ValueError\<close> it raises: a string
  of the shape \<open>YYYY-MM-DD\<close> is read as a calendar date, a string that does not start
  with four digits is rejected, and any other string (a date with a time of day, a basic
  or a week date, where the library version allows them) is left to the library.
\<close>

definition fromisoformat :: "library \<Rightarrow> string \<Rightarrow> datetime option" where
  "fromisoformat lib s =
     (if is_canonical s then calendar_date s
      else if \<not> starts_with_year s then None
      else other_iso lib s)"

subsection \<open>Strings\<close>

text \<open>
  \<open>repr()\<close> of a string: single quotes, unless the string holds a single quote and no
  double quote; the quote and the backslash are escaped, and so are the characters that
  are not printable.
\<close>

definition hex_digit :: "nat \<Rightarrow> char" where
  "hex_digit n = (if n mod 16 < 10 then char_of (48 + n mod 16) else char_of (87 + n mod 16))"

definition repr_char :: "char \<Rightarrow> char \<Rightarrow> string" where
  "repr_char q c = (let n = (of_char c :: nat) in
     if c = q \<or> n = 92 then [CHR 0x5C, c]
     else if n = 9 then [CHR 0x5C, CHR ''t'']
     else if n = 10 then [CHR 0x5C, CHR ''n'']
     else if n = 13 then [CHR 0x5C, CHR ''r'']
     else if n < 32 \<or> (127 \<le> n \<and> n \<le> 160) \<or> n = 173
       then [CHR 0x5C, CHR ''x'', hex_digit (n div 16), hex_digit n]
     else [c])"

definition repr_str :: "string \<Rightarrow> string" where
  "repr_str s = (let q = (if CHR 0x27 \<in> set s \<and> CHR 0x22 \<notin> set s then CHR 0x22 else CHR 0x27)
     in [q] @ concat (map (repr_char q) s) @ [q])"

text \<open>
  \<open>repr()\<close> of a value, and \<open>str()\<close>, which differs from it on a string only. (No JSON
  value holds a date-time; inside a list its text stands for it.)
\<close>

fun py_repr :: "pyval \<Rightarrow> string"
  and repr_items :: "pyval list \<Rightarrow> string list"
  and repr_pairs :: "(string \<times> pyval) list \<Rightarrow> string list" where
  "py_repr PNone = ''None''"
| "py_repr PNaN = ''nan''"
| "py_repr PNaT = ''NaT''"
| "py_repr (PStr s) = repr_str s"
| "py_repr (PBool b) = (if b then ''True'' else ''False'')"
| "py_repr (PInt i) = str_int i"
| "py_repr (PFloat r) = r"
| "py_repr (PDatetime d) = str_datetime d"
| "py_repr (PList xs) = ''['' @ join '', '' (repr_items xs) @ '']''"
| "py_repr (PDict kvs) = ''{'' @ join '', '' (repr_pairs kvs) @ ''}''"
| "repr_items [] = []"
| "repr_items (x # xs) = py_repr x # repr_items xs"
| "repr_pairs [] = []"
| "repr_pairs ((k, v) # kvs) = (repr_str k @ '': '' @ py_repr v) # repr_pairs kvs"

definition py_str :: "pyval \<Rightarrow> string" where
  "py_str v = (case v of PStr s \<Rightarrow> s | _ \<Rightarrow> py_repr v)"

text \<open>\<open>s.split(sep)[0]\<close> for a one-character separator: the text before its first occurrence.\<close>

definition split_first :: "char \<Rightarrow> string \<Rightarrow> string" where
  "split_first sep s = takeWhile (\<lambda>c. c \<noteq> sep) s"

text \<open>The characters \<open>str.strip()\<close> removes, among the code points below 256.\<close>

definition py_isspace :: "char \<Rightarrow> bool" where
  "py_isspace c = (let n = (of_char c :: nat) in
     (9 \<le> n \<and> n \<le> 13) \<or> (28 \<le> n \<and> n \<le> 32) \<or> n = 133 \<or> n = 160)"

definition strip :: "string \<Rightarrow> string" where
  "strip s = rev (dropWhile py_isspace (rev (dropWhile py_isspace s)))"

definition lower_char :: "char \<Rightarrow> char" where
  "lower_char c = (let n = (of_char c :: nat) in
     if (65 \<le> n \<and> n \<le> 90) \<or> (192 \<le> n \<and> n \<le> 222 \<and> n \<noteq> 215) then char_of (n + 32) else c)"

definition lower :: "string \<Rightarrow> string" where
  "lower s = map lower_char s"

definition startswith :: "string \<Rightarrow> string \<Rightarrow> bool" where
  "startswith s p = (take (length p) s = p)"

section \<open>Missing values\<close>

text \<open>
  \<open>pd.isna\<close> and \<open>pd.notnull\<close> on one object that is not a list: true of \<open>None\<close>,
  \<open>nan\<close> and \<open>NaT\<close>, false of every other scalar and of a \<open>dict\<close>. The cells of a
  sheet are such objects.
\<close>

fun isna :: "pyval \<Rightarrow> bool" where
  "isna PNone = True"
| "isna PNaN = True"
| "isna PNaT = True"
| "isna _ = False"

definition notnull :: "pyval \<Rightarrow> bool" where
  "notnull v = (\<not> isna v)"

fun is_list :: "pyval \<Rightarrow> bool" where
  "is_list (PList xs) = True"
| "is_list _ = False"

text \<open>
  The truth value \<open>if pd.isna(x):\<close> tests. On a list \<open>pd.isna\<close> returns an array, one
  entry for each element: the truth value of an array of one entry is that entry, and
  asking for the truth value of an array of two entries or more raises \<open>ValueError\<close>.
  The empty list and a list that holds a list are left to the library.
\<close>

definition isna_truth :: "library \<Rightarrow> pyval \<Rightarrow> exn + bool" where
  "isna_truth lib v =
     (case v of
        PList xs \<Rightarrow>
          (if xs = [] \<or> list_ex is_list xs then nested_isna lib xs
           else (case xs of [x] \<Rightarrow> Inr (isna x) | _ \<Rightarrow> Inl ValueError))
      | _ \<Rightarrow> Inr (isna v))"

section \<open>Date normalisation\<close>

text \<open>
  The body of the \<open>try\<close> block of \<open>normalize_date\<close>: \<open>Inl\<close> is the exception it raises,
  \<open>ValueError\<close> from \<open>fromisoformat\<close>, \<open>AttributeError\<close> where the value has no
  \<open>strftime\<close>.
\<close>

fun normalize_try :: "library \<Rightarrow> pyval \<Rightarrow> exn + string" where
  "normalize_try lib (PStr s) =
     (if CHR ''T'' \<in> set s then Inr (split_first (CHR ''T'') s)
      else if CHR '' '' \<in> set s then Inr (split_first (CHR '' '') s)
      else (case fromisoformat lib s of
              None \<Rightarrow> Inl ValueError
            | Some d \<Rightarrow> Inr (strftime_ymd d)))"
| "normalize_try lib (PDatetime d) = Inr (strftime_ymd d)"
| "normalize_try lib _ = Inl AttributeError"

text \<open>
  \<open>normalize_date\<close>: the test \<open>if pd.isna(date_obj)\<close> stands before the \<open>try\<close>, so what
  it raises leaves the function (\<open>Inl\<close>); what the \<open>try\<close> block raises is caught and the
  \<open>str()\<close> text of the value is returned.
\<close>

definition normalize_date :: "library \<Rightarrow> pyval \<Rightarrow> exn + pyval" where
  "normalize_date lib date_obj =
     (case isna_truth lib date_obj of
        Inl e \<Rightarrow> Inl e
      | Inr True \<Rightarrow> Inr PNone
      | Inr False \<Rightarrow>
          (case normalize_try lib date_obj of
             Inr s \<Rightarrow> Inr (PStr s)
           | Inl e \<Rightarrow> Inr (PStr (py_str date_obj))))"

section \<open>The API client\<close>

text \<open>
  A Python \<open>dict\<close> with string keys, in insertion order. \<open>d.get(k)\<close> is \<open>None\<close> where
  the key is absent. A sheet row answers \<open>row.get\<close> the same way, its labels being distinct.
\<close>

type_synonym dict = "(string \<times> pyval) list"

definition dict_get :: "dict \<Rightarrow> string \<Rightarrow> pyval" where
  "dict_get d k = (case map_of d k of None \<Rightarrow> PNone | Some v \<Rightarrow> v)"

definition API_BASE_URL :: string where
  "API_BASE_URL = ''https://api.pubmatic.com''"

text \<open>\<open>API_ENDPOINT.format(dealid=deal_id)\<close>: the identifier is formatted as \<open>str()\<close> does.\<close>

definition API_ENDPOINT_format :: "pyval \<Rightarrow> string" where
  "API_ENDPOINT_format dealid = ''/v3/pmp/deals/'' @ py_str dealid"

record request =
  req_url :: string
  req_headers :: "(string \<times> string) list"

text \<open>
  What \<open>requests.get\<close>, \<open>raise_for_status\<close> and \<open>response.json\<close> give together: a
  \<open>RequestException\<close> with its text (a transport error, a status that is not a success,
  a body that is not JSON), or the value of the JSON body, whatever it is: an object, a
  list, a scalar or \<open>null\<close>. The remote service is a function of the request and of the
  state of the world, which it may change.
\<close>

datatype response = RequestException string | Json pyval

type_synonym 'w remote = "request \<Rightarrow> 'w \<Rightarrow> response \<times> 'w"

text \<open>The \<open>Authorization\<close> header after the prefix is ensured.\<close>

definition authorization :: "string \<Rightarrow> string" where
  "authorization auth_token =
     (if \<not> startswith (lower auth_token) ''bearer '' then ''Bearer '' @ auth_token
      else auth_token)"

text \<open>The request \<open>get_deal_details\<close> builds before it calls the service.\<close>

definition deal_request :: "pyval \<Rightarrow> string \<Rightarrow> request" where
  "deal_request deal_id auth_token =
     (let url = API_BASE_URL @ API_ENDPOINT_format deal_id;
          headers = [(''Authorization'', authorization auth_token),
                     (''Content-Type'', ''application/json'')]
      in \<lparr>req_url = url, req_headers = headers\<rparr>)"

text \<open>
  The \<open>try\<close> block returns the parsed body; a \<open>RequestException\<close> is caught, its
  text is printed and \<open>None\<close> is returned.
\<close>

definition get_deal_details :: "'w remote \<Rightarrow> pyval \<Rightarrow> string \<Rightarrow> 'w \<Rightarrow> pyval \<times> 'w" where
  "get_deal_details remote deal_id auth_token w =
     (case remote (deal_request deal_id auth_token) w of
        (Json body, w') \<Rightarrow> (body, w')
      | (RequestException e, w') \<Rightarrow> (PNone, w'))"

section \<open>The comparator\<close>

record check =
  excel_col :: string
  api_field :: string
  label :: string
  is_date :: bool

definition checks :: "check list" where
  "checks =
     [\<lparr>excel_col = ''Deal Name'', api_field = ''name'', label = ''Deal Name'', is_date = False\<rparr>,
      \<lparr>excel_col = ''CPM (INR)'', api_field = ''cpm'', label = ''CPM'', is_date = False\<rparr>,
      \<lparr>excel_col = ''Start Date (MM-DD-YY)'', api_field = ''startDate'', label = ''Start Date'',
        is_date = True\<rparr>,
      \<lparr>excel_col = ''End date (MM-DD-YY)'', api_field = ''endDate'', label = ''End Date'',
        is_date = True\<rparr>,
      \<lparr>excel_col = ''Budget (INR)'', api_field = ''budget'', label = ''Budget'', is_date = False\<rparr>]"

text \<open>The message \<open>f"{label}: Expected '{str_excel}', Found '{str_api}'"\<close>.\<close>

definition discrepancy :: "string \<Rightarrow> string \<Rightarrow> string \<Rightarrow> string" where
  "discrepancy lbl str_excel str_api =
     lbl @ '': Expected '' @ [CHR 0x27] @ str_excel @ [CHR 0x27] @ '', Found '' @ [CHR 0x27]
     @ str_api @ [CHR 0x27]"

text \<open>
  \<open>api_data.get(field)\<close>: only a \<open>dict\<close> has the method; on any other value the call
  raises \<open>AttributeError\<close>.
\<close>

fun api_get :: "pyval \<Rightarrow> string \<Rightarrow> exn + pyval" where
  "api_get (PDict kvs) k = Inr (dict_get kvs k)"
| "api_get _ k = Inl AttributeError"

text \<open>The two conversions to a string, of the row's value and of the remote value.\<close>

definition str_excel_of :: "pyval \<Rightarrow> string" where
  "str_excel_of excel_val = (if notnull excel_val then py_str excel_val else [])"

definition str_api_of :: "pyval \<Rightarrow> string" where
  "str_api_of api_val = (if api_val \<noteq> PNone then py_str api_val else [])"

text \<open>
  One pass of the loop over the checks, in the order of the source: both values are read,
  both are normalised when the check is a date check, both are converted. The result is
  the pair of strings the pass compares; \<open>Inl\<close> is an exception that leaves
  \<open>validate_deal\<close>.
\<close>

definition compared :: "library \<Rightarrow> dict \<Rightarrow> pyval \<Rightarrow> check \<Rightarrow> exn + (string \<times> string)" where
  "compared lib row api_data c =
     (let excel_val = dict_get row (excel_col c) in
      case api_get api_data (api_field c) of
        Inl e \<Rightarrow> Inl e
      | Inr api_val \<Rightarrow>
          (case (if is_date c then normalize_date lib excel_val else Inr excel_val) of
             Inl e \<Rightarrow> Inl e
           | Inr excel_val \<Rightarrow>
               (case (if is_date c then normalize_date lib api_val else Inr api_val) of
                  Inl e \<Rightarrow> Inl e
                | Inr api_val \<Rightarrow> Inr (str_excel_of excel_val, str_api_of api_val))))"

text \<open>The discrepancy the pass appends, if any.\<close>

definition check_field :: "library \<Rightarrow> dict \<Rightarrow> pyval \<Rightarrow> check \<Rightarrow> exn + string option" where
  "check_field lib row api_data c =
     (case compared lib row api_data c of
        Inl e \<Rightarrow> Inl e
      | Inr (str_excel, str_api) \<Rightarrow>
          Inr (if str_excel \<noteq> str_api then Some (discrepancy (label c) str_excel str_api)
               else None))"

fun validate_loop :: "library \<Rightarrow> check list \<Rightarrow> dict \<Rightarrow> pyval \<Rightarrow> string list \<Rightarrow> exn + string list" where
  "validate_loop lib [] row api_data discrepancies = Inr discrepancies"
| "validate_loop lib (c # cs) row api_data discrepancies =
     (case check_field lib row api_data c of
        Inl e \<Rightarrow> Inl e
      | Inr None \<Rightarrow> validate_loop lib cs row api_data discrepancies
      | Inr (Some m) \<Rightarrow> validate_loop lib cs row api_data (discrepancies @ [m]))"

definition validate_deal :: "library \<Rightarrow> dict \<Rightarrow> pyval \<Rightarrow> exn + string list" where
  "validate_deal lib row api_data = validate_loop lib checks row api_data []"

text \<open>
  What a list of passes leaves behind: the first exception, or the messages in order.
\<close>

fun gather :: "(exn + string option) list \<Rightarrow> exn + string list" where
  "gather [] = Inr []"
| "gather (Inl e # rs) = Inl e"
| "gather (Inr m # rs) =
     (case gather rs of
        Inl e \<Rightarrow> Inl e
      | Inr ds \<Rightarrow> Inr (case m of None \<Rightarrow> ds | Some x \<Rightarrow> x # ds))"

section \<open>The main loop and the report\<close>

text \<open>The record appended to \<open>results\<close>.\<close>

definition outcome :: "pyval \<Rightarrow> string \<Rightarrow> string \<Rightarrow> dict" where
  "outcome deal_id status comments =
     [(''Deal ID'', deal_id), (''Status'', PStr status), (''Comments'', PStr comments)]"

text \<open>
  The truth value \<open>if api_data:\<close> tests, of a value that \<open>get_deal_details\<close> returned:
  \<open>None\<close>, \<open>False\<close>, zero, the empty string, the empty list and the \<open>dict\<close> with no
  key are false.
\<close>

fun truthy :: "pyval \<Rightarrow> bool" where
  "truthy PNone = False"
| "truthy (PBool b) = b"
| "truthy (PInt i) = (i \<noteq> 0)"
| "truthy (PFloat r) = (r \<noteq> ''0.0'' \<and> r \<noteq> ''-0.0'')"
| "truthy (PStr s) = (s \<noteq> [])"
| "truthy (PList xs) = (xs \<noteq> [])"
| "truthy (PDict kvs) = (kvs \<noteq> [])"
| "truthy _ = True"

text \<open>
  Status and comments of a row from what \<open>get_deal_details\<close> returned; \<open>Inl\<close> is an
  exception the comparator raised, which nothing catches.
\<close>

definition verdict :: "library \<Rightarrow> dict \<Rightarrow> pyval \<Rightarrow> exn + (string \<times> string)" where
  "verdict lib row api_data =
     (let status = ''SKIPPED''; comments = [] in
      if truthy api_data then
        (case validate_deal lib row api_data of
           Inl e \<Rightarrow> Inl e
         | Inr issues \<Rightarrow>
             Inr (if issues = [] then (''PASS'', comments) else (''FAIL'', join ''; '' issues)))
      else Inr (''ERROR'', ''API Request Failed''))"

text \<open>
  The loop over the rows of the sheet. \<open>results\<close> is the list the loop appends to; the
  state of the world is threaded through the requests. An exception ends the loop, and
  the run; \<open>Inr\<close> is the list of a loop that reached its end. Console output is not
  modelled.
\<close>

fun main_loop :: "library \<Rightarrow> 'w remote \<Rightarrow> string \<Rightarrow> dict list \<Rightarrow> 'w \<Rightarrow> dict list
    \<Rightarrow> (exn + dict list) \<times> 'w" where
  "main_loop lib remote auth_token [] w results = (Inr results, w)"
| "main_loop lib remote auth_token (row # rows) w results =
     (let deal_id = dict_get row ''Deal ID'' in
      if isna deal_id \<or> strip (py_str deal_id) = [] then
        main_loop lib remote auth_token rows w results
      else
        (case get_deal_details remote deal_id auth_token w of
           (api_data, w') \<Rightarrow>
             (case verdict lib row api_data of
                Inl e \<Rightarrow> (Inl e, w')
              | Inr (status, comments) \<Rightarrow>
                  main_loop lib remote auth_token rows w'
                    (results @ [outcome deal_id status comments]))))"

text \<open>
  \<open>pd.DataFrame(records)\<close> for a list of \<open>dict\<close>s: the columns are the keys in the order
  they are first seen, a row holds each record's values under these columns (\<open>nan\<close>
  where a record lacks the key). \<open>to_excel(path, index=False)\<close> writes the column names as
  the header line and the rows below; the written sheet is this table.
\<close>

record dataframe =
  df_columns :: "string list"
  df_rows :: "pyval list list"

definition first_seen :: "string list \<Rightarrow> string list" where
  "first_seen ks = rev (remdups (rev ks))"

definition DataFrame :: "dict list \<Rightarrow> dataframe" where
  "DataFrame records =
     (let cols = first_seen (concat (map (map fst) records))
      in \<lparr>df_columns = cols,
          df_rows = map (\<lambda>r. map (\<lambda>k. case map_of r k of None \<Rightarrow> PNaN | Some v \<Rightarrow> v) cols)
                      records\<rparr>)"

text \<open>
  The sheet as \<open>pd.read_excel\<close> returns it once the header line is found: the column
  labels, and below them the lines of cells as \<open>df.iterrows()\<close> yields them, each line
  already cast to its common type. \<open>None\<close> stands for a file that could not be read.
  \<open>main\<close> strips the labels, leaves with status 1 when no label is \<open>Deal ID\<close>, and
  otherwise runs the loop over the rows and writes the report; an exception of the loop
  ends the run before anything is written.
\<close>

record sheet =
  sh_columns :: "string list"
  sh_data :: "pyval list list"

datatype abort = SysExit nat | Uncaught exn

definition iterrows :: "string list \<Rightarrow> pyval list list \<Rightarrow> dict list" where
  "iterrows columns data = map (zip columns) data"

definition main :: "library \<Rightarrow> 'w remote \<Rightarrow> string \<Rightarrow> sheet option \<Rightarrow> 'w
    \<Rightarrow> (abort + dataframe) \<times> 'w" where
  "main lib remote auth_token loaded w =
     (case loaded of
        None \<Rightarrow> (Inl (SysExit 1), w)
      | Some df \<Rightarrow>
          (let columns = map strip (sh_columns df) in
           if ''Deal ID'' \<notin> set columns then (Inl (SysExit 1), w)
           else (case main_loop lib remote auth_token (iterrows columns (sh_data df)) w [] of
                   (Inl e, w') \<Rightarrow> (Inl (Uncaught e), w')
                 | (Inr results, w') \<Rightarrow> (Inr (DataFrame results), w'))))"

section \<open>Counting a prefix inside a header value\<close>

text \<open>The number of positions of a string at which a given non-empty text starts.\<close>

fun occurrences :: "string \<Rightarrow> string \<Rightarrow> nat" where
  "occurrences p [] = 0"
| "occurrences p (c # cs) = (if startswith (c # cs) p then 1 else 0) + occurrences p cs"

section \<open>Example inputs\<close>

text \<open>
  A sheet row with its remote record, which agree on every checked field; a row whose
  identifier is blank; a row whose identifier the service does not know; a row for which
  the service answers with an empty JSON object; a row for which it answers with a list;
  a row for which it answers with a record whose start date is a list of two dates. The
  example service counts the requests it has received. The example library reads no ISO
  form but \<open>YYYY-MM-DD\<close> and raises on an empty or nested list.
\<close>

definition example_row :: dict where
  "example_row =
     [(''Deal ID'', PInt 138752), (''Deal Name'', PStr ''TRESemme_F18''), (''CPM (INR)'', PInt 50),
      (''Start Date (MM-DD-YY)'',
         PDatetime \<lparr>dt_year = 2026, dt_month = 2, dt_day = 1, dt_hour = 0, dt_minute = 0,
                    dt_second = 0\<rparr>),
      (''End date (MM-DD-YY)'', PStr ''2026-03-01 00:00:00''), (''Budget (INR)'', PNaN)]"

definition example_record :: dict where
  "example_record =
     [(''id'', PInt 138752), (''name'', PStr ''TRESemme_F18''), (''cpm'', PInt 50),
      (''startDate'', PStr ''2026-02-01T09:31:18Z''), (''endDate'', PStr ''2026-03-01T09:31:18Z'')]"

definition blank_row :: dict where
  "blank_row = [(''Deal ID'', PStr ''  ''), (''Deal Name'', PStr ''no identifier'')]"

definition unknown_row :: dict where
  "unknown_row = [(''Deal ID'', PStr ''unknown_deal''), (''Deal Name'', PStr ''gone'')]"

definition hollow_row :: dict where
  "hollow_row = [(''Deal ID'', PInt 7), (''Deal Name'', PNaN), (''Owner'', PStr ''sales'')]"

definition listed_row :: dict where
  "listed_row = [(''Deal ID'', PStr ''listed''), (''Deal Name'', PStr ''in a list'')]"

definition dated_row :: dict where
  "dated_row = [(''Deal ID'', PStr ''dated''), (''Deal Name'', PStr ''two dates'')]"

definition two_dates :: pyval where
  "two_dates = PList [PStr ''2026-02-01'', PStr ''2026-03-01'']"

definition example_remote :: "nat remote" where
  "example_remote rq n =
     (if req_url rq = ''https://api.pubmatic.com/v3/pmp/deals/138752''
        then Json (PDict example_record)
      else if req_url rq = ''https://api.pubmatic.com/v3/pmp/deals/7'' then Json (PDict [])
      else if req_url rq = ''https://api.pubmatic.com/v3/pmp/deals/listed''
        then Json (PList [PDict example_record])
      else if req_url rq = ''https://api.pubmatic.com/v3/pmp/deals/dated''
        then Json (PDict [(''name'', PStr ''two dates''), (''startDate'', two_dates)])
      else RequestException ''404 Client Error: Not Found'',
      Suc n)"

definition example_library :: library where
  "example_library = \<lparr>other_iso = (\<lambda>s. None), nested_isna = (\<lambda>xs. Inl ValueError)\<rparr>"

definition blank_sheet :: sheet where
  "blank_sheet =
     \<lparr>sh_columns = [''Deal ID '', ''Deal Name''],
      sh_data = [[PNaN, PStr ''first''], [PStr ''  '', PStr ''second'']]\<rparr>"

section \<open>Evaluation rules and decimal digits\<close>

lemmas str_eval = str_int_def str_nat.simps digit_chr_def char_of_def bit_Suc_0_iff pad2_def
  pad4_def strftime_ymd_def str_datetime_def py_str_def

lemmas text_eval = strip_def py_isspace_def lower_def lower_char_def startswith_def
  split_first_def

lemmas client_eval = get_deal_details_def deal_request_def API_BASE_URL_def
  API_ENDPOINT_format_def authorization_def

lemmas compare_eval = validate_deal_def checks_def check_field_def compared_def
  str_excel_of_def str_api_of_def dict_get_def notnull_def normalize_date_def
  isna_truth_def discrepancy_def




lemma is_digit_digit_chr: "is_digit (digit_chr n)"
proof -
  have "48 + n mod 10 < 256" by simp
  then have "(of_char (char_of (48 + n mod 10 :: nat)) :: nat) = 48 + n mod 10"
    by (simp add: of_char_of [where ?'a = nat])
  then show ?thesis by (simp add: is_digit_def digit_chr_def)
qed





section \<open>Date normalisation: the canonical form\<close>






lemma py_str_PStr: "py_str (PStr s) = s"
  by (simp add: py_str_def)

lemma normalize_date_str:
  "normalize_date lib (PStr s) =
     (case normalize_try lib (PStr s) of Inr t \<Rightarrow> Inr (PStr t) | Inl e \<Rightarrow> Inr (PStr s))"
  by (simp add: normalize_date_def isna_truth_def py_str_PStr split: sum.splits)




section \<open>The example run\<close>

lemma py_str_PInt: "py_str (PInt i) = str_int i"
  by (simp add: py_str_def)

lemma example_ids:
  "dict_get example_row ''Deal ID'' = PInt 138752"
  "dict_get blank_row ''Deal ID'' = PStr ''  ''"
  "dict_get unknown_row ''Deal ID'' = PStr ''unknown_deal''"
  "dict_get hollow_row ''Deal ID'' = PInt 7"
  "dict_get listed_row ''Deal ID'' = PStr ''listed''"
  "dict_get dated_row ''Deal ID'' = PStr ''dated''"
  by (simp_all add: example_row_def blank_row_def unknown_row_def hollow_row_def
      listed_row_def dated_row_def dict_get_def)

lemma example_strips:
  "strip (str_int 138752) \<noteq> []"
  "strip ''  '' = []"
  "strip ''unknown_deal'' \<noteq> []"
  "strip (str_int 7) \<noteq> []"
  "strip ''listed'' \<noteq> []"
  "strip ''dated'' \<noteq> []"
  by (simp_all add: str_eval text_eval)

lemma example_fetches:
  "get_deal_details example_remote (PInt 138752) ''token'' n = (PDict example_record, Suc n)"
  "get_deal_details example_remote (PStr ''unknown_deal'') ''token'' n = (PNone, Suc n)"
  "get_deal_details example_remote (PInt 7) ''token'' n = (PDict [], Suc n)"
  "get_deal_details example_remote (PStr ''listed'') ''token'' n
     = (PList [PDict example_record], Suc n)"
  "get_deal_details example_remote (PStr ''dated'') ''token'' n
     = (PDict [(''name'', PStr ''two dates''), (''startDate'', two_dates)], Suc n)"
  by (simp_all add: example_remote_def client_eval str_eval)

lemma two_dates_raise: "normalize_date lib two_dates = Inl ValueError"
  by (simp add: normalize_date_def isna_truth_def two_dates_def)

lemma normalize_date_PNone: "normalize_date lib PNone = Inr PNone"
  by (simp add: normalize_date_def isna_truth_def)

lemma example_verdicts:
  "verdict example_library example_row (PDict example_record) = Inr (''PASS'', [])"
  "verdict lib unknown_row PNone = Inr (''ERROR'', ''API Request Failed'')"
  "verdict lib hollow_row (PDict []) = Inr (''ERROR'', ''API Request Failed'')"
  "verdict lib listed_row (PList [PDict example_record]) = Inl AttributeError"
  "verdict lib dated_row (PDict [(''name'', PStr ''two dates''), (''startDate'', two_dates)])
     = Inl ValueError"
proof -
  have "validate_deal example_library example_row (PDict example_record) = Inr []"
    by (simp add: example_row_def example_record_def example_library_def fromisoformat_def
        compare_eval str_eval text_eval)
  moreover have "example_record \<noteq> []" by (simp add: example_record_def)
  ultimately show "verdict example_library example_row (PDict example_record) = Inr (''PASS'', [])"
    by (simp add: verdict_def)
  show "verdict lib unknown_row PNone = Inr (''ERROR'', ''API Request Failed'')"
    "verdict lib hollow_row (PDict []) = Inr (''ERROR'', ''API Request Failed'')"
    by (simp_all add: verdict_def)
  have "validate_deal lib listed_row (PList [PDict example_record]) = Inl AttributeError"
    by (simp add: validate_deal_def checks_def check_field_def compared_def)
  then show "verdict lib listed_row (PList [PDict example_record]) = Inl AttributeError"
    by (simp add: verdict_def)
  have "validate_deal lib dated_row
      (PDict [(''name'', PStr ''two dates''), (''startDate'', two_dates)]) = Inl ValueError"
    by (simp add: validate_deal_def checks_def check_field_def compared_def dict_get_def
        dated_row_def two_dates_raise normalize_date_PNone str_excel_of_def str_api_of_def
        notnull_def py_str_PStr)
  then show "verdict lib dated_row
      (PDict [(''name'', PStr ''two dates''), (''startDate'', two_dates)]) = Inl ValueError"
    by (simp add: verdict_def)
qed

lemmas example_simps = Let_def example_ids example_strips example_fetches example_verdicts
  py_str_PStr py_str_PInt

lemma example_run:
  "main_loop example_library example_remote ''token''
     [example_row, blank_row, unknown_row, hollow_row] 0 [] =
     (Inr [outcome (PInt 138752) ''PASS'' [],
           outcome (PStr ''unknown_deal'') ''ERROR'' ''API Request Failed'',
           outcome (PInt 7) ''ERROR'' ''API Request Failed''], 3)"
  by (simp add: example_simps)

section \<open>Date normalisation: what it raises\<close>

text \<open>
  On a value that is not a list, date normalisation returns: \<open>None\<close> exactly when the
  value is missing, a string otherwise, and the \<open>str()\<close> text of the value where the
  guarded block raises.
\<close>

lemma normalize_date_not_list:
  assumes "\<not> is_list v"
  shows "(isna v \<longrightarrow> normalize_date lib v = Inr PNone) \<and>
         (\<not> isna v \<longrightarrow> (\<exists>s. normalize_date lib v = Inr (PStr s))) \<and>
         (\<forall>e. \<not> isna v \<longrightarrow> normalize_try lib v = Inl e \<longrightarrow>
            normalize_date lib v = Inr (PStr (py_str v)))"
  using assms by (cases v) (auto simp: normalize_date_def isna_truth_def split: sum.splits)

text \<open>
  C6. The code at a failing input: the remote record holds a list of two dates as its
  start date. \<open>pd.isna\<close> of the list is an array of two entries, the test
  \<open>if pd.isna(date_obj)\<close> raises \<open>ValueError\<close> before the \<open>try\<close> block is entered, and
  the exception leaves \<open>normalize_date\<close>, the comparator and the loop: the run ends
  without a report.
\<close>

theorem list_of_dates_raises:
  "(\<forall>lib. normalize_date lib two_dates = Inl ValueError) \<and>
   (\<forall>lib. fst (main_loop lib example_remote ''token'' [dated_row, unknown_row] 0 [])
      = Inl ValueError)"
  by (simp add: two_dates_raise example_simps)

section \<open>Date normalisation: strings without a separator\<close>

lemma is_canonical_starts_with_year: "is_canonical s \<Longrightarrow> starts_with_year s"
  by (erule is_canonical.elims) (simp add: starts_with_year_def)

text \<open>
  C8, as amended. For a string with no \<open>T\<close> and no space, date normalisation returns
  the \<open>%Y-%m-%d\<close> text of the date when \<open>datetime.fromisoformat\<close> accepts the string,
  and the string itself, unchanged, when it does not; a string that does not start with
  the four digits of a year is among the latter, in whatever format it writes a date.
\<close>

theorem normalize_date_plain_string:
  assumes "CHR ''T'' \<notin> set s" "CHR '' '' \<notin> set s"
  shows "(\<forall>d. fromisoformat lib s = Some d \<longrightarrow>
            normalize_date lib (PStr s) = Inr (PStr (strftime_ymd d))) \<and>
         (fromisoformat lib s = None \<longrightarrow> normalize_date lib (PStr s) = Inr (PStr s)) \<and>
         (\<not> starts_with_year s \<longrightarrow> normalize_date lib (PStr s) = Inr (PStr s))"
proof -
  have "\<not> starts_with_year s \<Longrightarrow> fromisoformat lib s = None"
    using is_canonical_starts_with_year [of s] by (auto simp: fromisoformat_def)
  then show ?thesis
    using assms by (auto simp: normalize_date_str)
qed

text \<open>
  The theorem at an ISO date, which the library reads, and at a date that starts with
  the name of a month.
\<close>

theorem normalize_date_plain_string_witness:
  "CHR ''T'' \<notin> set ''2026-02-01'' \<and> CHR '' '' \<notin> set ''2026-02-01'' \<and>
   fromisoformat example_library ''2026-02-01'' =
     Some \<lparr>dt_year = 2026, dt_month = 2, dt_day = 1, dt_hour = 0, dt_minute = 0,
       dt_second = 0\<rparr> \<and>
   normalize_date example_library (PStr ''2026-02-01'') = Inr (PStr ''2026-02-01'') \<and>
   CHR ''T'' \<notin> set ''Feb-1-2026'' \<and> CHR '' '' \<notin> set ''Feb-1-2026'' \<and>
   \<not> starts_with_year ''Feb-1-2026'' \<and>
   normalize_date example_library (PStr ''Feb-1-2026'') = Inr (PStr ''Feb-1-2026'')"
proof -
  have a: "CHR ''T'' \<notin> set ''2026-02-01''" "CHR '' '' \<notin> set ''2026-02-01''" by simp_all
  have b: "CHR ''T'' \<notin> set ''Feb-1-2026''" "CHR '' '' \<notin> set ''Feb-1-2026''" by simp_all
  have f: "fromisoformat example_library ''2026-02-01'' =
      Some \<lparr>dt_year = 2026, dt_month = 2, dt_day = 1, dt_hour = 0, dt_minute = 0,
        dt_second = 0\<rparr>"
    by (simp add: fromisoformat_def is_digit_def digit_val_def days_in_month_def)
  have g: "\<not> starts_with_year ''Feb-1-2026''"
    by (simp add: starts_with_year_def is_digit_def)
  have r: "strftime_ymd \<lparr>dt_year = 2026, dt_month = 2, dt_day = 1,
      dt_hour = 0, dt_minute = 0, dt_second = 0\<rparr> = ''2026-02-01''"
    by (simp add: str_eval)
  have p: "normalize_date example_library (PStr ''2026-02-01'') = Inr (PStr ''2026-02-01'')"
    using normalize_date_plain_string [OF a, of example_library] f r by simp
  have q: "normalize_date example_library (PStr ''Feb-1-2026'') = Inr (PStr ''Feb-1-2026'')"
    using normalize_date_plain_string [OF b, of example_library] g by blast
  show ?thesis using a b f g p q by blast
qed

text \<open>
  C8 as stated fails: dates written month first, as the sheet's own column headers
  name the format (\<open>MM-DD-YY\<close>), or with slashes, contain no \<open>T\<close> and no space and
  are passed through unchanged, not reformatted to \<open>YYYY-MM-DD\<close>, whatever the library
  reads besides.
\<close>

theorem generic_date_counterexample:
  "(\<forall>lib. normalize_date lib (PStr ''02/01/2026'') = Inr (PStr ''02/01/2026'')) \<and>
   (\<forall>lib. normalize_date lib (PStr ''02-01-26'') = Inr (PStr ''02-01-26'')) \<and>
   \<not> is_canonical ''02/01/2026'' \<and> \<not> is_canonical ''02-01-26''"
  by (simp add: normalize_date_str fromisoformat_def starts_with_year_def is_digit_def)

section \<open>The Authorization header\<close>

lemma lower_append: "lower (a @ b) = lower a @ lower b"
  by (simp add: lower_def)

lemma lower_Bearer: "lower ''Bearer '' = ''bearer ''"
  by (simp add: lower_def lower_char_def char_of_def bit_Suc_0_iff)

lemma occurrences_bearer: "occurrences ''bearer '' (''bearer '' @ t) = 1 + occurrences ''bearer '' t"
  by (simp add: startswith_def)

text \<open>
  C4, as amended. For every credential the \<open>Authorization\<close> header starts with
  \<open>Bearer \<close> in some letter casing. A credential that already starts so is sent
  unchanged; any other credential is sent behind the prefix \<open>Bearer \<close>. The header
  holds as many occurrences of \<open>Bearer \<close> (in any casing) as the credential does, plus
  one where the prefix was added: exactly one when the credential holds none past its
  own prefix.
\<close>

theorem authorization_prefix:
  "startswith (lower (authorization t)) ''bearer '' \<and>
   (startswith (lower t) ''bearer '' \<longrightarrow> authorization t = t) \<and>
   (\<not> startswith (lower t) ''bearer '' \<longrightarrow> authorization t = ''Bearer '' @ t) \<and>
   occurrences ''bearer '' (lower (authorization t)) =
     (if startswith (lower t) ''bearer '' then occurrences ''bearer '' (lower t)
      else 1 + occurrences ''bearer '' (lower t))"
proof (cases "startswith (lower t) ''bearer ''")
  case True
  then show ?thesis by (simp add: authorization_def)
next
  case False
  have "lower (''Bearer '' @ t) = ''bearer '' @ lower t"
    by (simp only: lower_append lower_Bearer)
  then show ?thesis
    using False occurrences_bearer [of "lower t"]
    by (simp add: authorization_def) (simp add: startswith_def)
qed

text \<open>
  The theorem at a credential with the prefix in mixed casing and at a bare token.
\<close>

theorem authorization_prefix_witness:
  "startswith (lower (authorization ''bEARER abc'')) ''bearer '' \<and>
   startswith (lower ''bEARER abc'') ''bearer '' \<and>
   authorization ''bEARER abc'' = ''bEARER abc'' \<and>
   \<not> startswith (lower ''abc'') ''bearer '' \<and>
   authorization ''abc'' = ''Bearer abc'' \<and>
   occurrences ''bearer '' (lower (authorization ''abc'')) = 1"
proof -
  have a: "startswith (lower ''bEARER abc'') ''bearer ''"
    by (simp add: text_eval char_of_def bit_Suc_0_iff)
  have b: "\<not> startswith (lower ''abc'') ''bearer ''"
    by (simp add: text_eval char_of_def bit_Suc_0_iff)
  have c: "occurrences ''bearer '' (lower ''abc'') = 0"
    by (simp add: text_eval char_of_def bit_Suc_0_iff)
  note t1 = authorization_prefix [of "''bEARER abc''"]
  note t2 = authorization_prefix [of "''abc''"]
  have p1: "startswith (lower (authorization ''bEARER abc'')) ''bearer ''"
    using t1 by (rule conjunct1)
  have p2: "authorization ''bEARER abc'' = ''bEARER abc''"
    using t1 a by blast
  have p3: "authorization ''abc'' = ''Bearer abc''"
    using t2 b by simp
  have "occurrences ''bearer '' (lower (authorization ''abc'')) =
     (if startswith (lower ''abc'') ''bearer '' then occurrences ''bearer '' (lower ''abc'')
      else 1 + occurrences ''bearer '' (lower ''abc''))"
    using t2 by blast
  also have "\<dots> = 1" using b c by simp
  finally have p4: "occurrences ''bearer '' (lower (authorization ''abc'')) = 1" .
  show ?thesis
    using p1 p2 p3 p4 a b by blast
qed

text \<open>
  C4 as stated fails: a credential that starts with \<open>Bearer \<close> twice is sent
  unchanged, and the header holds two occurrences.
\<close>

theorem authorization_occurrences_counterexample:
  "startswith (lower ''Bearer Bearer abc'') ''bearer '' \<and>
   authorization ''Bearer Bearer abc'' = ''Bearer Bearer abc'' \<and>
   occurrences ''bearer '' (lower (authorization ''Bearer Bearer abc'')) = 2"
  by (simp add: authorization_def text_eval char_of_def bit_Suc_0_iff)

section \<open>Missing values in the comparator\<close>

lemma validate_loop_gathers:
  "validate_loop lib cs row api_data ds =
     (case gather (map (check_field lib row api_data) cs) of
        Inl e \<Rightarrow> Inl e
      | Inr ms \<Rightarrow> Inr (ds @ ms))"
proof (induction cs arbitrary: ds)
  case Nil
  then show ?case by simp
next
  case (Cons c cs)
  show ?case
  proof (cases "check_field lib row api_data c")
    case (Inl e)
    then show ?thesis by simp
  next
    case (Inr m)
    then show ?thesis
      using Cons.IH by (cases m) (simp_all split: sum.splits)
  qed
qed

lemma normalize_date_isna: "isna v \<Longrightarrow> normalize_date lib v = Inr PNone"
  by (cases v) (simp_all add: normalize_date_def isna_truth_def)

lemma normalize_date_empty: "normalize_date lib (PStr []) = Inr (PStr [])"
  by (simp add: normalize_date_str fromisoformat_def starts_with_year_def)

text \<open>
  C9. For every field check, when the row's value is missing (the column is absent, or
  the cell is \<open>None\<close>, \<open>nan\<close> or \<open>NaT\<close>) and the remote record's value is absent, null
  or the empty string, both sides become the empty string and the check appends no
  discrepancy. What \<open>validate_deal\<close> returns is what its passes leave behind, in order,
  and nothing else.
\<close>

theorem missing_values_compare_equal:
  assumes "isna (dict_get row (excel_col c))"
    and "dict_get api_data (api_field c) = PNone \<or> dict_get api_data (api_field c) = PStr []"
  shows "compared lib row (PDict api_data) c = Inr ([], []) \<and>
         check_field lib row (PDict api_data) c = Inr None \<and>
         validate_deal lib row (PDict api_data) =
           gather (map (check_field lib row (PDict api_data)) checks)"
proof -
  have e: "str_excel_of (dict_get row (excel_col c)) = []" "str_excel_of PNone = []"
    using assms(1) by (simp_all add: str_excel_of_def notnull_def)
  have a: "str_api_of (dict_get api_data (api_field c)) = []" "str_api_of PNone = []"
    "str_api_of (PStr []) = []"
    using assms(2) by (auto simp: str_api_of_def py_str_PStr)
  have n: "normalize_date lib (dict_get row (excel_col c)) = Inr PNone"
    using assms(1) by (rule normalize_date_isna)
  have m: "normalize_date lib (dict_get api_data (api_field c)) = Inr PNone
      \<or> normalize_date lib (dict_get api_data (api_field c)) = Inr (PStr [])"
    using assms(2) by (auto simp: normalize_date_PNone normalize_date_empty)
  have c: "compared lib row (PDict api_data) c = Inr ([], [])"
    using e a n m by (cases "is_date c") (auto simp: compared_def)
  have v: "validate_deal lib row (PDict api_data) =
           gather (map (check_field lib row (PDict api_data)) checks)"
    by (simp add: validate_deal_def validate_loop_gathers split: sum.splits)
  show ?thesis using c v by (simp add: check_field_def)
qed

text \<open>
  The theorem at a row whose \<open>Deal Name\<close> is \<open>nan\<close> against a record with no
  \<open>name\<close> key, and at a date check against an empty string.
\<close>

theorem missing_values_compare_equal_witness:
  "isna (dict_get hollow_row ''Deal Name'') \<and> dict_get [] ''name'' = PNone \<and>
   check_field example_library hollow_row (PDict [])
     \<lparr>excel_col = ''Deal Name'', api_field = ''name'', label = ''Deal Name'', is_date = False\<rparr>
     = Inr None \<and>
   isna (dict_get hollow_row ''Start Date (MM-DD-YY)'') \<and>
   dict_get [(''startDate'', PStr [])] ''startDate'' = PStr [] \<and>
   check_field example_library hollow_row (PDict [(''startDate'', PStr [])])
     \<lparr>excel_col = ''Start Date (MM-DD-YY)'', api_field = ''startDate'', label = ''Start Date'',
       is_date = True\<rparr> = Inr None"
proof -
  let ?c = "\<lparr>excel_col = ''Deal Name'', api_field = ''name'', label = ''Deal Name'', is_date = False\<rparr>"
  let ?d = "\<lparr>excel_col = ''Start Date (MM-DD-YY)'', api_field = ''startDate'', label = ''Start Date'',
       is_date = True\<rparr>"
  have h1: "isna (dict_get hollow_row (excel_col ?c))"
    by (simp add: hollow_row_def dict_get_def)
  have h2: "dict_get [] (api_field ?c) = PNone \<or> dict_get [] (api_field ?c) = PStr []"
    by (simp add: dict_get_def)
  have h3: "isna (dict_get hollow_row (excel_col ?d))"
    by (simp add: hollow_row_def dict_get_def)
  have h4: "dict_get [(''startDate'', PStr [])] (api_field ?d) = PNone
      \<or> dict_get [(''startDate'', PStr [])] (api_field ?d) = PStr []"
    by (simp add: dict_get_def)
  have r1: "check_field example_library hollow_row (PDict []) ?c = Inr None"
    using missing_values_compare_equal [OF h1 h2] by blast
  have r2: "check_field example_library hollow_row (PDict [(''startDate'', PStr [])]) ?d = Inr None"
    using missing_values_compare_equal [OF h3 h4] by blast
  have k: "dict_get [] ''name'' = PNone" "dict_get [(''startDate'', PStr [])] ''startDate'' = PStr []"
    by (simp_all add: dict_get_def)
  show ?thesis using h1 h3 r1 r2 k by simp
qed

section \<open>Skipped rows and the order of the outcomes\<close>

text \<open>A row is skipped when its identifier is missing or blank once stripped.\<close>

lemma main_loop_step:
  "main_loop lib remote tok (row # rows) w results =
     (if isna (dict_get row ''Deal ID'') \<or> strip (py_str (dict_get row ''Deal ID'')) = []
      then main_loop lib remote tok rows w results
      else (case verdict lib row (fst (get_deal_details remote (dict_get row ''Deal ID'') tok w)) of
              Inl e \<Rightarrow> (Inl e, snd (get_deal_details remote (dict_get row ''Deal ID'') tok w))
            | Inr (status, comments) \<Rightarrow>
                main_loop lib remote tok rows
                  (snd (get_deal_details remote (dict_get row ''Deal ID'') tok w))
                  (results @ [outcome (dict_get row ''Deal ID'') status comments])))"
  by (simp add: Let_def split: prod.splits sum.splits)

lemma main_loop_completed:
  assumes "main_loop lib remote tok rows w results = (Inr rs, w')"
  shows "\<exists>new. rs = results @ new \<and>
     list_all2 (\<lambda>oc r. \<exists>api_data status comments.
                  verdict lib r api_data = Inr (status, comments) \<and>
                  oc = outcome (dict_get r ''Deal ID'') status comments)
       new
       (filter (\<lambda>r. \<not> (isna (dict_get r ''Deal ID'')
                        \<or> strip (py_str (dict_get r ''Deal ID'')) = [])) rows)"
  using assms
proof (induction rows arbitrary: w results)
  case Nil
  then show ?case by simp
next
  case (Cons row rows)
  let ?id = "dict_get row ''Deal ID''"
  show ?case
  proof (cases "isna ?id \<or> strip (py_str ?id) = []")
    case True
    then have "main_loop lib remote tok rows w results = (Inr rs, w')"
      using Cons.prems by (simp only: main_loop_step if_True)
    from Cons.IH [OF this] show ?thesis using True by auto
  next
    case False
    let ?g = "get_deal_details remote ?id tok w"
    have q: "(case verdict lib row (fst ?g) of
              Inl e \<Rightarrow> (Inl e, snd ?g)
            | Inr (status, comments) \<Rightarrow>
                main_loop lib remote tok rows (snd ?g)
                  (results @ [outcome ?id status comments])) = (Inr rs, w')"
      using Cons.prems False by (simp only: main_loop_step if_False)
    obtain status comments where v: "verdict lib row (fst ?g) = Inr (status, comments)"
      using q by (cases "verdict lib row (fst ?g)") auto
    have "main_loop lib remote tok rows (snd ?g) (results @ [outcome ?id status comments])
        = (Inr rs, w')"
      using q v by simp
    from Cons.IH [OF this] obtain new where
      n: "rs = (results @ [outcome ?id status comments]) @ new"
      and l: "list_all2 (\<lambda>oc r. \<exists>api_data status comments.
                  verdict lib r api_data = Inr (status, comments) \<and>
                  oc = outcome (dict_get r ''Deal ID'') status comments)
       new
       (filter (\<lambda>r. \<not> (isna (dict_get r ''Deal ID'')
                        \<or> strip (py_str (dict_get r ''Deal ID'')) = [])) rows)"
      by blast
    have "rs = results @ (outcome ?id status comments # new)" using n by simp
    moreover have "list_all2 (\<lambda>oc r. \<exists>api_data status comments.
                  verdict lib r api_data = Inr (status, comments) \<and>
                  oc = outcome (dict_get r ''Deal ID'') status comments)
       (outcome ?id status comments # new)
       (filter (\<lambda>r. \<not> (isna (dict_get r ''Deal ID'')
                        \<or> strip (py_str (dict_get r ''Deal ID'')) = [])) (row # rows))"
      using False l v by auto
    ultimately show ?thesis by blast
  qed
qed

lemma list_all2_left: "list_all2 P xs ys \<Longrightarrow> \<forall>x \<in> set xs. \<exists>y. P x y"
  by (induction rule: list_all2_induct) auto

lemma remdups_absorb: "set xs \<subseteq> set ys \<Longrightarrow> remdups (xs @ ys) = remdups ys"
  by (induction xs) auto

lemma first_seen_same_keys:
  assumes "recs \<noteq> []" "\<forall>r \<in> set recs. map fst r = K" "distinct K"
  shows "first_seen (concat (map (map fst) recs)) = K"
proof -
  obtain r rs where recs: "recs = r # rs" using assms(1) by (cases recs) auto
  let ?X = "concat (map (map fst) rs)"
  have sub: "set (rev ?X) \<subseteq> set (rev K)" using assms(2) recs by auto
  have "concat (map (map fst) recs) = K @ ?X" using assms(2) recs by simp
  then have "first_seen (concat (map (map fst) recs)) = rev (remdups (rev ?X @ rev K))"
    by (simp add: first_seen_def)
  also have "\<dots> = rev (remdups (rev K))" using remdups_absorb [OF sub] by simp
  also have "\<dots> = K" using assms(3) by (simp add: distinct_remdups_id)
  finally show ?thesis .
qed

text \<open>The lines of a report are the values of the outcomes, in the order of the list.\<close>

lemma DataFrame_lines:
  assumes "\<forall>oc \<in> set recs. \<exists>i s c. oc = outcome i s c"
  shows "df_rows (DataFrame recs) = map (map snd) recs"
proof (cases "recs = []")
  case True
  then show ?thesis by (simp add: DataFrame_def)
next
  case False
  have k: "\<forall>r \<in> set recs. map fst r = [''Deal ID'', ''Status'', ''Comments'']"
    using assms by (auto simp: outcome_def)
  have cols: "first_seen (concat (map (map fst) recs)) = [''Deal ID'', ''Status'', ''Comments'']"
    by (rule first_seen_same_keys [OF False k]) simp
  have "\<And>oc. oc \<in> set recs \<Longrightarrow>
      map (\<lambda>k. case map_of oc k of None \<Rightarrow> PNaN | Some v \<Rightarrow> v)
        [''Deal ID'', ''Status'', ''Comments''] = map snd oc"
    using assms by (auto simp: outcome_def)
  then show ?thesis by (simp add: DataFrame_def cols)
qed




section \<open>The statuses of the recorded outcomes\<close>

lemma verdict_status:
  "verdict lib row api_data = Inr (status, comments) \<Longrightarrow>
     status = ''PASS'' \<or> status = ''FAIL'' \<or> status = ''ERROR''"
  by (auto simp: verdict_def Let_def split: if_splits sum.splits)

lemma outcome_status: "dict_get (outcome i s c) ''Status'' = PStr s"
  by (simp add: outcome_def dict_get_def)

lemma main_loop_statuses:
  assumes "main_loop lib remote tok rows w [] = (Inr rs, w')"
  shows "\<forall>oc \<in> set rs. \<exists>i s c. oc = outcome i s c \<and>
           (s = ''PASS'' \<or> s = ''FAIL'' \<or> s = ''ERROR'')"
proof
  fix oc assume "oc \<in> set rs"
  with main_loop_completed [OF assms] obtain r api_data status comments
    where "verdict lib r api_data = Inr (status, comments)"
      and "oc = outcome (dict_get r ''Deal ID'') status comments"
    by (auto dest!: list_all2_left)
  then show "\<exists>i s c. oc = outcome i s c \<and> (s = ''PASS'' \<or> s = ''FAIL'' \<or> s = ''ERROR'')"
    using verdict_status by blast
qed

text \<open>
  C10. Every outcome that the loop has recorded when it reaches its end has the status
  \<open>PASS\<close>, \<open>FAIL\<close> or \<open>ERROR\<close>, never the initial value \<open>SKIPPED\<close>; and every line
  of a written report is an identifier, one of these three statuses and the comments.
\<close>

theorem status_never_skipped:
  "(\<forall>rs. fst (main_loop lib remote tok rows w []) = Inr rs \<longrightarrow>
      (\<forall>oc \<in> set rs.
         (dict_get oc ''Status'' = PStr ''PASS'' \<or> dict_get oc ''Status'' = PStr ''FAIL''
          \<or> dict_get oc ''Status'' = PStr ''ERROR'')
         \<and> dict_get oc ''Status'' \<noteq> PStr ''SKIPPED'')) \<and>
   (\<forall>df. fst (main lib remote tok loaded w) = Inr df \<longrightarrow>
      (\<forall>r \<in> set (df_rows df). \<exists>i s c. r = [i, PStr s, PStr c] \<and>
         ((s = ''PASS'' \<or> s = ''FAIL'' \<or> s = ''ERROR'') \<and> s \<noteq> ''SKIPPED'')))"
proof (intro conjI allI impI)
  fix rs assume "fst (main_loop lib remote tok rows w []) = Inr rs"
  then have "main_loop lib remote tok rows w [] = (Inr rs, snd (main_loop lib remote tok rows w []))"
    by (cases "main_loop lib remote tok rows w []") simp
  from main_loop_statuses [OF this]
  show "\<forall>oc \<in> set rs.
         (dict_get oc ''Status'' = PStr ''PASS'' \<or> dict_get oc ''Status'' = PStr ''FAIL''
          \<or> dict_get oc ''Status'' = PStr ''ERROR'')
         \<and> dict_get oc ''Status'' \<noteq> PStr ''SKIPPED''"
    by (auto simp: outcome_status)
next
  fix df assume m: "fst (main lib remote tok loaded w) = Inr df"
  then obtain sh where l: "loaded = Some sh"
    by (cases loaded) (auto simp: main_def)
  let ?rows = "iterrows (map strip (sh_columns sh)) (sh_data sh)"
  obtain res w' where r: "main_loop lib remote tok ?rows w [] = (res, w')"
    by (cases "main_loop lib remote tok ?rows w []")
  obtain rs where rs: "res = Inr rs" and df: "df = DataFrame rs"
    using m l r by (cases res) (auto simp: main_def Let_def split: if_splits)
  note st = main_loop_statuses [OF r [unfolded rs]]
  then have "\<forall>oc \<in> set rs. \<exists>i s c. oc = outcome i s c" by blast
  then have lines: "df_rows df = map (map snd) rs"
    unfolding df by (rule DataFrame_lines)
  show "\<forall>r \<in> set (df_rows df). \<exists>i s c. r = [i, PStr s, PStr c] \<and>
         ((s = ''PASS'' \<or> s = ''FAIL'' \<or> s = ''ERROR'') \<and> s \<noteq> ''SKIPPED'')"
  proof
    fix line assume "line \<in> set (df_rows df)"
    then obtain oc where oc: "oc \<in> set rs" and line: "line = map snd oc"
      unfolding lines by auto
    from st oc obtain i s c where o: "oc = outcome i s c"
      and s: "s = ''PASS'' \<or> s = ''FAIL'' \<or> s = ''ERROR''" by blast
    have "line = [i, PStr s, PStr c]" unfolding line o by (simp add: outcome_def)
    moreover have "s \<noteq> ''SKIPPED''" using s by auto
    ultimately show "\<exists>i s c. line = [i, PStr s, PStr c] \<and>
         ((s = ''PASS'' \<or> s = ''FAIL'' \<or> s = ''ERROR'') \<and> s \<noteq> ''SKIPPED'')"
      using s by blast
  qed
qed

text \<open>The theorem at the outcomes of the example rows.\<close>

theorem status_never_skipped_witness:
  "fst (main_loop example_library example_remote ''token''
          [example_row, blank_row, unknown_row, hollow_row] 0 [])
     = Inr [outcome (PInt 138752) ''PASS'' [],
            outcome (PStr ''unknown_deal'') ''ERROR'' ''API Request Failed'',
            outcome (PInt 7) ''ERROR'' ''API Request Failed''] \<and>
   dict_get (outcome (PInt 7) ''ERROR'' ''API Request Failed'') ''Status'' \<noteq> PStr ''SKIPPED'' \<and>
   dict_get (outcome (PInt 138752) ''PASS'' []) ''Status'' \<noteq> PStr ''SKIPPED''"
proof -
  let ?rows = "[example_row, blank_row, unknown_row, hollow_row]"
  have r: "fst (main_loop example_library example_remote ''token'' ?rows 0 [])
     = Inr [outcome (PInt 138752) ''PASS'' [],
            outcome (PStr ''unknown_deal'') ''ERROR'' ''API Request Failed'',
            outcome (PInt 7) ''ERROR'' ''API Request Failed'']"
    by (simp only: example_run fst_conv)
  note t = status_never_skipped [of example_library example_remote "''token''" ?rows 0 None,
      THEN conjunct1, rule_format, OF r]
  have "dict_get (outcome (PInt 7) ''ERROR'' ''API Request Failed'') ''Status'' \<noteq> PStr ''SKIPPED''"
    using t by simp
  moreover have "dict_get (outcome (PInt 138752) ''PASS'' []) ''Status'' \<noteq> PStr ''SKIPPED''"
    using t by simp
  ultimately show ?thesis using r by blast
qed

section \<open>Failed requests\<close>





section \<open>An empty remote record and an empty report\<close>

text \<open>
  The status of a row, by what \<open>get_deal_details\<close> returned: \<open>ERROR\<close> for every value
  that counts as false, \<open>None\<close> and the record with no key among them; otherwise
  \<open>PASS\<close> or \<open>FAIL\<close> as the comparator decides, or the exception it raises.
\<close>

lemma verdict_by_cases:
  "verdict lib row api_data =
     (if \<not> truthy api_data then Inr (''ERROR'', ''API Request Failed'')
      else (case validate_deal lib row api_data of
              Inl e \<Rightarrow> Inl e
            | Inr issues \<Rightarrow> if issues = [] then Inr (''PASS'', [])
                            else Inr (''FAIL'', join ''; '' issues)))"
  by (simp add: verdict_def Let_def split: sum.splits)

text \<open>When the loop has recorded an outcome, the report has the three columns.\<close>

lemma report_columns:
  assumes "main_loop lib remote tok rows w [] = (Inr rs, w')" "rs \<noteq> []"
  shows "df_columns (DataFrame rs) = [''Deal ID'', ''Status'', ''Comments'']"
proof -
  have "\<forall>oc \<in> set rs. map fst oc = [''Deal ID'', ''Status'', ''Comments'']"
    using main_loop_statuses [OF assms(1)] by (auto simp: outcome_def)
  then have "first_seen (concat (map (map fst) rs)) = [''Deal ID'', ''Status'', ''Comments'']"
    using assms(2) by (intro first_seen_same_keys) simp_all
  then show ?thesis by (simp add: DataFrame_def)
qed

text \<open>
  C1. The code at a failing input: the service answers the request with an empty JSON
  object, the comparator finds no discrepancy between the row and that record, and the
  recorded status is \<open>ERROR\<close> with the comment \<open>API Request Failed\<close>.
\<close>

theorem empty_object_is_error:
  "example_remote (deal_request (PInt 7) ''token'') 0 = (Json (PDict []), 1) \<and>
   (\<forall>lib. validate_deal lib hollow_row (PDict []) = Inr []) \<and>
   (\<forall>lib. fst (main_loop lib example_remote ''token'' [hollow_row] 0 []) =
      Inr [outcome (PInt 7) ''ERROR'' ''API Request Failed''])"
proof -
  have a: "example_remote (deal_request (PInt 7) ''token'') 0 = (Json (PDict []), 1)"
    by (simp add: example_remote_def client_eval str_eval)
  have b: "\<And>lib. validate_deal lib hollow_row (PDict []) = Inr []"
    by (simp add: hollow_row_def validate_deal_def checks_def check_field_def compared_def
        dict_get_def normalize_date_PNone str_excel_of_def str_api_of_def notnull_def)
  have c: "\<And>lib. fst (main_loop lib example_remote ''token'' [hollow_row] 0 []) =
     Inr [outcome (PInt 7) ''ERROR'' ''API Request Failed'']"
    by (simp add: example_simps)
  show ?thesis using a b c by blast
qed

text \<open>
  C3. The code at a failing input: every row of the sheet has a missing or blank
  identifier, the run completes, and the written table has no column and no line.
\<close>

theorem empty_report_has_no_columns:
  "\<forall>lib. main lib example_remote ''token'' (Some blank_sheet) 0
     = (Inr \<lparr>df_columns = [], df_rows = []\<rparr>, 0)"
  by (simp add: main_def blank_sheet_def iterrows_def DataFrame_def first_seen_def dict_get_def
      text_eval py_str_PStr)

end
